theory Spec2Isabelle
  imports Main "HOL-Library.Word"
begin

section \<open>The Sensu Slack handler: data model\<close>

text \<open>
  Go strings are byte sequences: \<open>len\<close> counts bytes and a slice expression cuts at byte
  offsets. They are modelled as \<open>string\<close> (a list of 8-bit characters).
\<close>

definition LF :: char where
  "LF = CHR 0x0A"

definition CR :: char where
  "CR = CHR 0x0D"

text \<open>
  \<open>corev2.ObjectMeta\<close> is embedded in both \<open>corev2.Entity\<close> and \<open>corev2.Check\<close>, so
  \<open>event.Entity.Name\<close> and \<open>event.Check.Name\<close> are its promoted fields. The model covers
  events that carry an entity and a check (both pointers non-nil), as every event of the
  test suite does. \<open>Check.Status\<close> is a \<open>uint32\<close>, \<open>Check.Occurrences\<close> and
  \<open>Event.Timestamp\<close> are \<open>int64\<close>.
\<close>

record objectMeta =
  Name :: string
  Namespace :: string
  Annotations :: "string \<rightharpoonup> string"

record entity = objectMeta +
  EntityClass :: string

record check = objectMeta +
  Status :: "32 word"
  Output :: string
  Occurrences :: "64 word"

record event =
  Timestamp :: "64 word"
  Entity :: entity
  Check :: check

text \<open>\<open>sensu.PluginConfig\<close> is embedded in \<open>HandlerConfig\<close>.\<close>

record PluginConfig =
  Plugin_Name :: string
  Short :: string
  Keyspace :: string

record HandlerConfig = PluginConfig +
  sensuUIURL :: string
  slackwebHookURL :: string
  slackChannel :: string
  slackUsername :: string
  slackIconURL :: string
  slackDescriptionTemplate :: string
  slackAlertCritical :: bool

definition uiURL :: string where
  "uiURL = ''ui-url''"

definition webHookURL :: string where
  "webHookURL = ''webhook-url''"

definition defaultChannel :: string where
  "defaultChannel = ''#general''"

definition defaultIconURL :: string where
  "defaultIconURL = ''https://www.sensu.io/img/sensu-logo.png''"

definition defaultUsername :: string where
  "defaultUsername = ''sensu''"

text \<open>
  A Go \<open>error\<close> value is represented by its message; a run-time panic is a value of its
  own, so that a function that can panic returns \<open>panic + 'a\<close>.
\<close>

datatype error = Errorf string

fun Error_msg :: "error \<Rightarrow> string" where
  "Error_msg (Errorf m) = m"

datatype panic = SliceBoundsOutOfRange int nat


section \<open>String helpers of the Go standard library\<close>

text \<open>
  \<open>strings.Trim(s, cutset)\<close> removes every leading and every trailing byte of \<open>s\<close> that
  occurs in \<open>cutset\<close>; for a cutset of ASCII bytes the library computes
  \<open>trimLeft(trimRight(s))\<close> byte by byte, which is what is written here.
\<close>

definition TrimRight :: "string \<Rightarrow> string \<Rightarrow> string" where
  "TrimRight s cutset = rev (dropWhile (\<lambda>c. c \<in> set cutset) (rev s))"

definition TrimLeft :: "string \<Rightarrow> string \<Rightarrow> string" where
  "TrimLeft s cutset = dropWhile (\<lambda>c. c \<in> set cutset) s"

definition Trim :: "string \<Rightarrow> string \<Rightarrow> string" where
  "Trim s cutset = TrimLeft (TrimRight s cutset) cutset"

text \<open>
  The slice expression \<open>s[lo:hi]\<close> on a string panics unless
  \<open>0 \<le> lo \<le> hi \<le> len(s)\<close>.
\<close>

definition string_slice :: "string \<Rightarrow> int \<Rightarrow> int \<Rightarrow> panic + string" where
  "string_slice s lo hi =
     (if 0 \<le> lo \<and> lo \<le> hi \<and> hi \<le> int (length s)
      then Inr (take (nat hi - nat lo) (drop (nat lo) s))
      else Inl (SliceBoundsOutOfRange hi (length s)))"

text \<open>
  \<open>strings.Replace(description, `\n`, "\n", -1)\<close>: every non-overlapping occurrence, from
  the left, of the two bytes backslash and \<open>n\<close> becomes one line feed.
\<close>

fun Replace_backslash_n :: "string \<Rightarrow> string" where
  "Replace_backslash_n [] = []"
| "Replace_backslash_n [c] = [c]"
| "Replace_backslash_n (c # d # s) =
     (if c = CHR 0x5C \<and> d = CHR ''n'' then LF # Replace_backslash_n s
      else c # Replace_backslash_n (d # s))"


section \<open>The event formatter\<close>

definition formattedEventAction :: "event \<Rightarrow> string" where
  "formattedEventAction ev = (if Status (Check ev) = 0 then ''RESOLVED'' else ''ALERT'')"

definition chomp :: "string \<Rightarrow> string" where
  "chomp s = Trim (Trim (Trim s [LF]) [CR]) [CR, LF]"

definition eventKey :: "event \<Rightarrow> string" where
  "eventKey ev = Name (Entity ev) @ ''/'' @ Name (Check ev)"

definition eventSummary :: "event \<Rightarrow> int \<Rightarrow> panic + string" where
  "eventSummary ev maxLength =
     (let output = chomp (Output (Check ev)) in
      if int (length (Output (Check ev))) > maxLength
      then (case string_slice output 0 maxLength of
              Inl p \<Rightarrow> Inl p
            | Inr sliced \<Rightarrow> Inr (eventKey ev @ '':'' @ sliced @ ''...''))
      else Inr (eventKey ev @ '':'' @ output))"

definition eventURL :: "HandlerConfig \<Rightarrow> event \<Rightarrow> string" where
  "eventURL config ev =
     sensuUIURL config @ ''/n/'' @ Namespace (Entity ev) @ ''/events/''
       @ Name (Entity ev) @ ''/'' @ Name (Check ev)"

definition formattedMessage :: "event \<Rightarrow> panic + string" where
  "formattedMessage ev =
     (case eventSummary ev 100 of
        Inl p \<Rightarrow> Inl p
      | Inr summary \<Rightarrow> Inr (formattedEventAction ev @ '' - '' @ summary))"

definition messageColor :: "event \<Rightarrow> string" where
  "messageColor ev =
     (if Status (Check ev) = 0 then ''#36a64f''
      else if Status (Check ev) = 1 then ''#ffcc00''
      else if Status (Check ev) = 2 then ''#ff0000''
      else ''#6600cc'')"


section \<open>The chat payload\<close>

text \<open>
  Modelled from the spec: the type declarations \<open>slack.AttachmentField\<close>,
  \<open>slack.AttachmentAction\<close>, \<open>slack.Attachment\<close> and \<open>slack.WebhookMessage\<close> of the Slack
  client library, which the handler fills in. The records carry the fields that sections 3,
  4.3, 4.4 and 6 of the specification name (text, fallback, color, markdown-enabled fields,
  actions with name, text, type and url; title, fields list and footer; channel, icon URL,
  username, attachments and the two boolean flags). A field that a Go composite literal
  leaves out has its zero value, which the \<open>_zero\<close> constants give.
\<close>

record AttachmentField =
  Field_Title :: string
  Field_Value :: string
  Field_Short :: bool

record AttachmentAction =
  Action_Name :: string
  Action_Text :: string
  Action_Type :: string
  Action_URL :: string

record Attachment =
  Color :: string
  Fallback :: string
  Title :: string
  Text :: string
  Fields :: "AttachmentField list"
  Actions :: "AttachmentAction list"
  MarkdownIn :: "string list"
  Footer :: string

record WebhookMessage =
  Username :: string
  IconURL :: string
  Channel :: string
  Attachments :: "Attachment list"
  ReplaceOriginal :: bool
  DeleteOriginal :: bool

definition AttachmentAction_zero :: AttachmentAction where
  "AttachmentAction_zero =
     \<lparr>Action_Name = [], Action_Text = [], Action_Type = [], Action_URL = []\<rparr>"

definition Attachment_zero :: Attachment where
  "Attachment_zero =
     \<lparr>Color = [], Fallback = [], Title = [], Text = [], Fields = [], Actions = [],
      MarkdownIn = [], Footer = []\<rparr>"

definition WebhookMessage_zero :: WebhookMessage where
  "WebhookMessage_zero =
     \<lparr>Username = [], IconURL = [], Channel = [], Attachments = [],
      ReplaceOriginal = False, DeleteOriginal = False\<rparr>"


section \<open>Effects\<close>

text \<open>
  What the handler does to the outside: the bytes it prints on standard output and the
  webhook requests it makes, in order. The environment is read through \<open>os.Getenv\<close>, which
  gives the empty string for a variable that is not set.
\<close>

record world =
  stdout :: string
  posted :: "(string \<times> WebhookMessage) list"

type_synonym environ = "string \<rightharpoonup> string"

definition Getenv :: "environ \<Rightarrow> string \<Rightarrow> string" where
  "Getenv env key = (case env key of None \<Rightarrow> [] | Some v \<Rightarrow> v)"

text \<open>
  The two library calls whose code is outside the repository are parameters:
  \<open>templates.EvalTemplate(name, template, event)\<close> returns the rendered text and an
  optional error, \<open>slack.PostWebhook(url, msg)\<close> returns an optional error.
\<close>

type_synonym EvalTemplate = "string \<Rightarrow> string \<Rightarrow> event \<Rightarrow> string \<times> error option"

type_synonym PostWebhook = "string \<Rightarrow> WebhookMessage \<Rightarrow> error option"


section \<open>Message assembly and delivery\<close>

text \<open>
  The fields of the composite literal are evaluated in the order written, so the fallback
  (which can panic) is computed after the template has been evaluated and its error printed.
\<close>

definition messageAttachment ::
  "EvalTemplate \<Rightarrow> HandlerConfig \<Rightarrow> event \<Rightarrow> world \<Rightarrow> world \<times> (panic + Attachment)" where
  "messageAttachment evalTemplate config ev w =
     (let (description, err) =
            evalTemplate ''description'' (slackDescriptionTemplate config) ev;
          w1 = (case err of
                  None \<Rightarrow> w
                | Some e \<Rightarrow>
                    w\<lparr>stdout := stdout w @ Plugin_Name config
                         @ '': Error processing template: '' @ Error_msg e\<rparr>);
          description1 = Replace_backslash_n description
      in case formattedMessage ev of
           Inl p \<Rightarrow> (w1, Inl p)
         | Inr fallback \<Rightarrow>
             (w1, Inr (Attachment_zero
                \<lparr>Text := description1,
                 Fallback := fallback,
                 Color := messageColor ev,
                 MarkdownIn := [''text''],
                 Actions := [AttachmentAction_zero
                    \<lparr>Action_Text := ''View in Sensu'',
                     Action_Type := ''button'',
                     Action_URL := eventURL config ev\<rparr>]\<rparr>)))"

definition sendMessage ::
  "EvalTemplate \<Rightarrow> PostWebhook \<Rightarrow> HandlerConfig \<Rightarrow> event \<Rightarrow> world
     \<Rightarrow> world \<times> (panic + error option)" where
  "sendMessage evalTemplate postWebhook config ev w =
     (case messageAttachment evalTemplate config ev w of
        (w1, Inl p) \<Rightarrow> (w1, Inl p)
      | (w1, Inr attachment) \<Rightarrow>
          (let hookmsg = WebhookMessage_zero
                 \<lparr>Attachments := [attachment],
                  Channel := slackChannel config,
                  IconURL := slackIconURL config,
                  Username := slackUsername config\<rparr>;
               w2 = w1\<lparr>posted := posted w1 @ [(slackwebHookURL config, hookmsg)]\<rparr>
           in case postWebhook (slackwebHookURL config) hookmsg of
                Some err \<Rightarrow>
                  (w2, Inr (Some (Errorf (''Failed to send Slack message: '' @ Error_msg err))))
              | None \<Rightarrow>
                  (w2\<lparr>stdout := stdout w2 @ ''Notification sent to Slack channel ''
                         @ slackChannel config @ [LF]\<rparr>,
                   Inr None)))"


section \<open>Validation\<close>

text \<open>
  \<open>checkArgs\<close> first overlays the deprecated environment variables on the global
  configuration and then checks the two required fields. The configuration it leaves behind
  is returned with the result.
\<close>

definition checkArgs :: "environ \<Rightarrow> HandlerConfig \<Rightarrow> HandlerConfig \<times> error option" where
  "checkArgs env config =
     (let webhook = Getenv env ''SENSU_SLACK_WEBHOOK_URL'';
          c1 = (if webhook \<noteq> [] then config\<lparr>slackwebHookURL := webhook\<rparr> else config);
          channel = Getenv env ''SENSU_SLACK_CHANNEL'';
          c2 = (if channel \<noteq> [] \<and> slackChannel c1 = defaultChannel
                then c1\<lparr>slackChannel := channel\<rparr> else c1);
          username = Getenv env ''SENSU_SLACK_USERNAME'';
          c3 = (if username \<noteq> [] \<and> slackUsername c2 = defaultUsername
                then c2\<lparr>slackUsername := username\<rparr> else c2);
          icon = Getenv env ''SENSU_SLACK_ICON_URL'';
          c4 = (if icon \<noteq> [] \<and> slackIconURL c3 = defaultIconURL
                then c3\<lparr>slackIconURL := icon\<rparr> else c3)
      in if length (slackwebHookURL c4) = 0
         then (c4, Some (Errorf (''--'' @ webHookURL
                  @ '' or SLACK_WEBHOOK_URL environment variable is required'')))
         else if length (sensuUIURL c4) = 0
         then (c4, Some (Errorf (''--'' @ uiURL
                  @ '' or SENSU_UI_URL environment variable is required'')))
         else (c4, None))"

text \<open>
  Modelled from the spec: the handler lifecycle that \<open>main\<close> obtains from the plugin SDK
  (\<open>sensu.NewGoHandler(..., checkArgs, sendMessage).Execute()\<close>), whose code is outside the
  repository. By section 4.5 the validation step runs before the core and, when it returns
  a configuration error, the core is not invoked and the error is the outcome.
\<close>

definition goHandler_Execute ::
  "environ \<Rightarrow> EvalTemplate \<Rightarrow> PostWebhook \<Rightarrow> HandlerConfig \<Rightarrow> event \<Rightarrow> world
     \<Rightarrow> world \<times> (panic + error option)" where
  "goHandler_Execute env evalTemplate postWebhook config ev w =
     (case checkArgs env config of
        (config1, Some err) \<Rightarrow> (w, Inr (Some err))
      | (config1, None) \<Rightarrow> sendMessage evalTemplate postWebhook config1 ev w)"


section \<open>The specification's wording of the formatter\<close>

text \<open>
  Section 4.1 of the specification, word for word: \<open>trimTrailingLineEndings\<close> strips the
  trailing line feeds and carriage returns from the end of the string, and \<open>summary\<close>
  compares the original length with \<open>maxLength\<close>, keeps the first \<open>maxLength\<close> characters
  of the trimmed output and appends the ellipsis.
\<close>

definition trimTrailingLineEndings :: "string \<Rightarrow> string" where
  "trimTrailingLineEndings s = rev (dropWhile (\<lambda>c. c = LF \<or> c = CR) (rev s))"

definition summary_spec :: "event \<Rightarrow> int \<Rightarrow> string" where
  "summary_spec ev maxLength =
     (let trimmed = trimTrailingLineEndings (Output (Check ev))
      in eventKey ev @ '':'' @
         (if int (length (Output (Check ev))) > maxLength
          then take (nat maxLength) trimmed @ ''...''
          else trimmed))"


section \<open>Events and configurations used as examples\<close>

text \<open>
  The event of the test suite, \<open>corev2.FixtureEvent("entity1", "check1")\<close>: namespace
  \<open>default\<close>, status 0 and an empty output, as the expected payload of \<open>TestSendMessage\<close>
  shows.
\<close>

definition FixtureEvent :: "string \<Rightarrow> string \<Rightarrow> event" where
  "FixtureEvent entityName checkName =
     \<lparr>Timestamp = 0,
      Entity = \<lparr>Name = entityName, Namespace = ''default'', Annotations = Map.empty,
                EntityClass = ''host''\<rparr>,
      Check = \<lparr>Name = checkName, Namespace = ''default'', Annotations = Map.empty,
               Status = 0, Output = [], Occurrences = 1\<rparr>\<rparr>"

definition withOutput :: "event \<Rightarrow> string \<Rightarrow> event" where
  "withOutput ev out = ev\<lparr>Check := (Check ev)\<lparr>Output := out\<rparr>\<rparr>"

definition withStatus :: "event \<Rightarrow> 32 word \<Rightarrow> event" where
  "withStatus ev st = ev\<lparr>Check := (Check ev)\<lparr>Status := st\<rparr>\<rparr>"

text \<open>The configuration as \<open>main\<close> declares it, before any option is read.\<close>

definition config0 :: HandlerConfig where
  "config0 =
     \<lparr>Plugin_Name = ''sensu-slack-handler'',
      Short = ''The Sensu Go Slack handler for notifying a channel'',
      Keyspace = ''sensu.io/plugins/slack/config'',
      sensuUIURL = [], slackwebHookURL = [], slackChannel = [], slackUsername = [],
      slackIconURL = [], slackDescriptionTemplate = [], slackAlertCritical = False\<rparr>"

definition world0 :: world where
  "world0 = \<lparr>stdout = [], posted = []\<rparr>"

text \<open>A template evaluation that fails with nothing rendered, and one that succeeds.\<close>

definition evalFails :: EvalTemplate where
  "evalFails name templ ev = ([], Some (Errorf ''Error building template''))"

definition evalOutput :: EvalTemplate where
  "evalOutput name templ ev = (Output (Check ev), None)"

definition postOK :: PostWebhook where
  "postOK url msg = None"

text \<open>
  A check output of 99 printable bytes followed by two line feeds: 101 bytes before
  trimming, 99 after.
\<close>

definition longOutput :: string where
  "longOutput = replicate 99 (CHR ''a'') @ [LF, LF]"


section \<open>Properties of \<open>strings.Trim\<close>\<close>

lemma dropWhile_weaker:
  "(\<And>x. Q x \<Longrightarrow> P x) \<Longrightarrow> dropWhile P (dropWhile Q xs) = dropWhile P xs"
  by (induction xs) auto

lemma TrimLeft_absorb:
  "set a \<subseteq> set b \<Longrightarrow> TrimLeft (TrimLeft s a) b = TrimLeft s b"
  unfolding TrimLeft_def by (rule dropWhile_weaker) auto

lemma TrimRight_absorb:
  "set a \<subseteq> set b \<Longrightarrow> TrimRight (TrimRight s a) b = TrimRight s b"
  unfolding TrimRight_def by (simp add: dropWhile_weaker subset_iff)

lemma TrimRight_Nil [simp]: "TrimRight [] cs = []"
  by (simp add: TrimRight_def)

lemma TrimRight_Cons:
  "TrimRight (x # xs) cs
     = (if TrimRight xs cs = [] \<and> x \<in> set cs then [] else x # TrimRight xs cs)"
  by (auto simp: TrimRight_def dropWhile_append dropWhile_eq_Nil_conv)

text \<open>Trimming on the left and trimming on the right do not disturb each other.\<close>

lemma TrimLeft_TrimRight_commute:
  "TrimLeft (TrimRight s a) b = TrimRight (TrimLeft s b) a"
proof (induction s)
  case Nil
  show ?case by (simp add: TrimLeft_def)
next
  case (Cons x xs)
  show ?case
  proof (cases "x \<in> set b")
    case True
    with Cons show ?thesis
      by (auto simp: TrimRight_Cons TrimLeft_def)
  next
    case False
    then show ?thesis
      by (simp add: TrimRight_Cons TrimLeft_def)
  qed
qed

lemma Trim_absorb:
  assumes "set a \<subseteq> set b"
  shows "Trim (Trim s a) b = Trim s b"
proof -
  have "Trim (Trim s a) b = TrimLeft (TrimRight (TrimLeft (TrimRight s a) a) b) b"
    by (simp add: Trim_def)
  also have "\<dots> = TrimLeft (TrimLeft (TrimRight (TrimRight s a) b) a) b"
    by (simp add: TrimLeft_TrimRight_commute)
  also have "\<dots> = TrimLeft (TrimRight s b) b"
    using assms by (simp add: TrimLeft_absorb TrimRight_absorb)
  finally show ?thesis by (simp add: Trim_def)
qed

lemma Trim_idem: "Trim (Trim s a) a = Trim s a"
  by (rule Trim_absorb) simp

lemma TrimRight_decomp:
  "\<exists>suf. s = TrimRight s cs @ suf \<and> set suf \<subseteq> set cs"
proof -
  let ?P = "\<lambda>c. c \<in> set cs"
  have "rev s = takeWhile ?P (rev s) @ dropWhile ?P (rev s)" by simp
  then have "s = rev (dropWhile ?P (rev s)) @ rev (takeWhile ?P (rev s))"
    by (metis rev_append rev_rev_ident)
  moreover have "set (rev (takeWhile ?P (rev s))) \<subseteq> set cs"
    by (auto dest: set_takeWhileD)
  ultimately show ?thesis unfolding TrimRight_def by blast
qed

lemma TrimLeft_decomp:
  "\<exists>pre. s = pre @ TrimLeft s cs \<and> set pre \<subseteq> set cs"
proof -
  let ?P = "\<lambda>c. c \<in> set cs"
  have "s = takeWhile ?P s @ dropWhile ?P s" by simp
  moreover have "set (takeWhile ?P s) \<subseteq> set cs"
    by (auto dest: set_takeWhileD)
  ultimately show ?thesis unfolding TrimLeft_def by blast
qed

lemma Trim_decomp:
  "\<exists>pre suf. s = pre @ Trim s cs @ suf \<and> set pre \<subseteq> set cs \<and> set suf \<subseteq> set cs"
proof -
  obtain suf where suf: "s = TrimRight s cs @ suf" "set suf \<subseteq> set cs"
    using TrimRight_decomp by blast
  obtain pre where pre: "TrimRight s cs = pre @ Trim s cs" "set pre \<subseteq> set cs"
    unfolding Trim_def using TrimLeft_decomp by blast
  from suf(1) pre(1) have "s = pre @ Trim s cs @ suf" by simp
  with pre(2) suf(2) show ?thesis by blast
qed

lemma TrimLeft_hd: "TrimLeft s cs \<noteq> [] \<Longrightarrow> hd (TrimLeft s cs) \<notin> set cs"
  unfolding TrimLeft_def by (rule hd_dropWhile)

lemma TrimRight_last:
  assumes "TrimRight s cs \<noteq> []"
  shows "last (TrimRight s cs) \<notin> set cs"
proof -
  let ?d = "dropWhile (\<lambda>c. c \<in> set cs) (rev s)"
  from assms have ne: "?d \<noteq> []" by (simp add: TrimRight_def)
  then have "hd ?d \<notin> set cs" by (rule hd_dropWhile)
  moreover from ne have "last (rev ?d) = hd ?d" by (simp add: last_rev)
  ultimately show ?thesis by (simp add: TrimRight_def)
qed

lemma Trim_hd: "Trim s cs \<noteq> [] \<Longrightarrow> hd (Trim s cs) \<notin> set cs"
  unfolding Trim_def by (rule TrimLeft_hd)

lemma Trim_last: "Trim s cs \<noteq> [] \<Longrightarrow> last (Trim s cs) \<notin> set cs"
  unfolding Trim_def TrimLeft_TrimRight_commute by (rule TrimRight_last)

lemma TrimLeft_id: "s = [] \<or> hd s \<notin> set cs \<Longrightarrow> TrimLeft s cs = s"
  by (cases s) (auto simp: TrimLeft_def)

lemma length_TrimRight: "length (TrimRight s cs) \<le> length s"
  unfolding TrimRight_def by (metis length_dropWhile_le length_rev)

lemma length_Trim: "length (Trim s cs) \<le> length s"
  unfolding Trim_def TrimLeft_def
  by (meson length_dropWhile_le length_TrimRight le_trans)


section \<open>\<open>chomp\<close>\<close>

text \<open>
  The three nested calls amount to one: the first two cutsets are part of the third.
\<close>

lemma chomp_eq_Trim: "chomp s = Trim s [CR, LF]"
  by (simp add: chomp_def Trim_absorb)

lemma length_chomp: "length (chomp s) \<le> length s"
  by (simp add: chomp_eq_Trim length_Trim)

lemma chomp_example:
  "chomp ([CR, LF] @ ''he'' @ [LF] @ ''llo'' @ [CR, LF, LF]) = ''he'' @ [LF] @ ''llo''"
  by (simp add: chomp_def Trim_def TrimLeft_def TrimRight_def LF_def CR_def)

text \<open>The tests of \<open>TestChomp\<close>.\<close>

lemma TestChomp:
  "chomp (''hello'' @ [LF]) = ''hello''"
  "chomp (''hello'' @ [CR]) = ''hello''"
  "chomp (''hello'' @ [CR, LF]) = ''hello''"
  "chomp (''hello'' @ [CR, LF, CR, LF, CR, LF]) = ''hello''"
  by (simp_all add: chomp_def Trim_def TrimLeft_def TrimRight_def LF_def CR_def)

text \<open>
  Claim C2, as the specification words it: \<open>chomp\<close> removes only the trailing run of line
  feeds and carriage returns and keeps every leading character. The code does not: a
  leading line feed is removed as well, where the specification's
  \<open>trimTrailingLineEndings\<close> keeps it.
\<close>

theorem chomp_leading_counterexample:
  "chomp ''\<newline>hello'' = ''hello''
     \<and> trimTrailingLineEndings ''\<newline>hello'' = ''\<newline>hello''"
  by (simp add: chomp_def Trim_def TrimLeft_def TrimRight_def trimTrailingLineEndings_def
      LF_def CR_def)

text \<open>
  Claim C2, amended: for every string \<open>s\<close>, \<open>chomp\<close> removes the maximal leading run and the
  maximal trailing run of line feeds and carriage returns and changes nothing else. The
  string is a run of line endings, then \<open>chomp s\<close> unchanged (interior line endings
  included), then a run of line endings; and \<open>chomp s\<close>, when not empty, neither starts nor
  ends with a line ending, so both runs are maximal.
\<close>

theorem chomp_strips_both_ends:
  "\<exists>pre suf. s = pre @ chomp s @ suf
      \<and> (\<forall>c \<in> set pre. c = LF \<or> c = CR) \<and> (\<forall>c \<in> set suf. c = LF \<or> c = CR)
      \<and> (chomp s \<noteq> [] \<longrightarrow> hd (chomp s) \<notin> {LF, CR} \<and> last (chomp s) \<notin> {LF, CR})"
proof -
  obtain pre suf where d: "s = pre @ Trim s [CR, LF] @ suf"
      "set pre \<subseteq> set [CR, LF]" "set suf \<subseteq> set [CR, LF]"
    using Trim_decomp by blast
  have ends: "Trim s [CR, LF] \<noteq> [] \<longrightarrow>
      hd (Trim s [CR, LF]) \<notin> {LF, CR} \<and> last (Trim s [CR, LF]) \<notin> {LF, CR}"
    using Trim_hd [of s "[CR, LF]"] Trim_last [of s "[CR, LF]"] by auto
  from d(2) have "\<forall>c \<in> set pre. c = LF \<or> c = CR" by auto
  moreover from d(3) have "\<forall>c \<in> set suf. c = LF \<or> c = CR" by auto
  ultimately show ?thesis
    using d(1) ends unfolding chomp_eq_Trim by blast
qed

theorem chomp_strips_both_ends_witness:
  "\<exists>pre suf.
      [CR, LF] @ ''he'' @ [LF] @ ''llo'' @ [CR, LF, LF] = pre @ (''he'' @ [LF] @ ''llo'') @ suf
      \<and> (\<forall>c \<in> set pre. c = LF \<or> c = CR) \<and> (\<forall>c \<in> set suf. c = LF \<or> c = CR)
      \<and> (''he'' @ [LF] @ ''llo'' \<noteq> [] \<and> hd (''he'' @ [LF] @ ''llo'') \<notin> {LF, CR}
           \<and> last (''he'' @ [LF] @ ''llo'') \<notin> {LF, CR})"
  using chomp_strips_both_ends [of "[CR, LF] @ ''he'' @ [LF] @ ''llo'' @ [CR, LF, LF]"]
  unfolding chomp_example by (simp add: LF_def CR_def)

text \<open>
  Where the string does not start with a line ending, \<open>chomp\<close> is the specification's
  \<open>trimTrailingLineEndings\<close>.
\<close>

lemma chomp_no_leading:
  assumes "s = [] \<or> hd s \<notin> {LF, CR}"
  shows "chomp s = trimTrailingLineEndings s"
proof -
  have "chomp s = TrimRight (TrimLeft s [CR, LF]) [CR, LF]"
    by (simp add: chomp_eq_Trim Trim_def TrimLeft_TrimRight_commute)
  also have "TrimLeft s [CR, LF] = s"
    using assms by (intro TrimLeft_id) auto
  also have "TrimRight s [CR, LF] = trimTrailingLineEndings s"
    unfolding TrimRight_def trimTrailingLineEndings_def
    by (rule arg_cong [where f = rev], rule arg_cong [where f = "\<lambda>P. dropWhile P (rev s)"])
      auto
  finally show ?thesis .
qed

text \<open>
  Claim C9: \<open>chomp\<close> is idempotent, \<open>chomp (chomp s) = chomp s\<close> for every string \<open>s\<close>.
\<close>

theorem chomp_idempotent: "chomp (chomp s) = chomp s"
  by (simp add: chomp_eq_Trim Trim_idem)

theorem chomp_idempotent_witness:
  "chomp (chomp ([LF] @ ''hello'' @ [CR, LF, CR, LF])) = chomp ([LF] @ ''hello'' @ [CR, LF, CR, LF])"
  using chomp_idempotent [of "[LF] @ ''hello'' @ [CR, LF, CR, LF]"] by simp

lemma chomp_append_line_endings:
  assumes "s \<noteq> []" "hd s \<notin> {LF, CR}" "last s \<notin> {LF, CR}" "set t \<subseteq> {LF, CR}"
  shows "chomp (s @ t) = s"
proof -
  have "TrimRight (s @ t) [CR, LF] = s"
    using assms by (cases s rule: rev_cases) (auto simp: TrimRight_def dropWhile_append)
  moreover have "TrimLeft s [CR, LF] = s"
    using assms by (intro TrimLeft_id) auto
  ultimately show ?thesis by (simp add: chomp_eq_Trim Trim_def)
qed

lemma chomp_longOutput: "chomp longOutput = replicate 99 (CHR ''a'')"
  unfolding longOutput_def
  by (rule chomp_append_line_endings) (simp_all add: LF_def CR_def)

lemma length_longOutput: "length longOutput = 101"
  by (simp add: longOutput_def)


section \<open>\<open>eventSummary\<close>\<close>

text \<open>
  \<open>eventSummary\<close> returns exactly when the slice is in range: the original output is no
  longer than \<open>maxLength\<close>, or \<open>maxLength\<close> lies between 0 and the length of the trimmed
  output.
\<close>

lemma eventSummary_returns_iff:
  "(\<exists>r. eventSummary ev n = Inr r) \<longleftrightarrow>
     int (length (Output (Check ev))) \<le> n
     \<or> (0 \<le> n \<and> n \<le> int (length (chomp (Output (Check ev)))))"
  by (auto simp: eventSummary_def string_slice_def Let_def)

text \<open>
  When it returns, what follows the event key is at most \<open>maxLength\<close> bytes of output plus
  the three bytes of the ellipsis.
\<close>

lemma eventSummary_bound:
  assumes "eventSummary ev n = Inr r" and "0 \<le> n"
  shows "\<exists>out. r = eventKey ev @ '':'' @ out \<and> int (length out) \<le> n + 3"
  using assms length_chomp [of "Output (Check ev)"]
  by (auto simp: eventSummary_def string_slice_def Let_def split: if_splits)

text \<open>
  Claim C1 says that \<open>eventSummary\<close> returns a result for every event and every
  \<open>maxLength \<ge> 0\<close>, the slice being in range also when the untrimmed output is longer than
  \<open>maxLength\<close> and the trimmed output is shorter. The code compares the untrimmed length and
  slices the trimmed output: for the output \<open>"ab\n\n\n"\<close> and \<open>maxLength = 4\<close>, and for
  an output of 99 bytes and two line feeds with the \<open>maxLength = 100\<close> that
  \<open>formattedMessage\<close> passes, the slice expression is out of range and the function panics.
\<close>

theorem eventSummary_slice_panics:
  "eventSummary (withOutput (FixtureEvent ''entity1'' ''check1'') (''ab'' @ [LF, LF, LF])) 4
     = Inl (SliceBoundsOutOfRange 4 2)
   \<and> eventSummary (withOutput (FixtureEvent ''entity1'' ''check1'') longOutput) 100
     = Inl (SliceBoundsOutOfRange 100 99)"
proof
  show "eventSummary (withOutput (FixtureEvent ''entity1'' ''check1'') (''ab'' @ [LF, LF, LF])) 4
     = Inl (SliceBoundsOutOfRange 4 2)"
    by (simp add: eventSummary_def withOutput_def FixtureEvent_def string_slice_def
        chomp_def Trim_def TrimLeft_def TrimRight_def LF_def CR_def)
  show "eventSummary (withOutput (FixtureEvent ''entity1'' ''check1'') longOutput) 100
     = Inl (SliceBoundsOutOfRange 100 99)"
    by (simp add: eventSummary_def withOutput_def FixtureEvent_def string_slice_def
        chomp_longOutput length_longOutput)
qed

text \<open>
  Claim C5, as the specification words it (\<open>summary_spec\<close>: only trailing line endings are
  trimmed). For the output \<open>"\ndisk"\<close> the code drops the leading line feed, which the
  specification's summary keeps.
\<close>

theorem eventSummary_leading_counterexample:
  "eventSummary (withOutput (FixtureEvent ''entity1'' ''check1'') ''\<newline>disk'') 100
     = Inr ''entity1/check1:disk''
   \<and> summary_spec (withOutput (FixtureEvent ''entity1'' ''check1'') ''\<newline>disk'') 100
     = ''entity1/check1:\<newline>disk''"
  by (simp add: eventSummary_def summary_spec_def withOutput_def FixtureEvent_def eventKey_def
      trimTrailingLineEndings_def chomp_def Trim_def TrimLeft_def TrimRight_def LF_def CR_def)

text \<open>
  Claim C5, amended: \<open>eventSummary\<close> applies \<open>chomp\<close> to the check output, which trims
  leading as well as trailing line endings. If the original (untrimmed) output is no longer
  than \<open>maxLength\<close>, the result is \<open>"{entity}/{check}:"\<close> followed by the trimmed output; if
  it is longer and \<open>maxLength\<close> lies between 0 and the length of the trimmed output, the
  result is \<open>"{entity}/{check}:"\<close>, the first \<open>maxLength\<close> bytes of the trimmed output and
  \<open>"..."\<close>. The witness gives the two results of \<open>TestEventSummary\<close>.
\<close>

theorem eventSummary_by_design:
  "(int (length (Output (Check ev))) \<le> n \<longrightarrow>
      eventSummary ev n
        = Inr (Name (Entity ev) @ ''/'' @ Name (Check ev) @ '':'' @ chomp (Output (Check ev))))
   \<and> (n < int (length (Output (Check ev))) \<and> 0 \<le> n
        \<and> n \<le> int (length (chomp (Output (Check ev)))) \<longrightarrow>
      eventSummary ev n
        = Inr (Name (Entity ev) @ ''/'' @ Name (Check ev) @ '':''
               @ take (nat n) (chomp (Output (Check ev))) @ ''...''))"
  by (simp add: eventSummary_def eventKey_def string_slice_def Let_def)

lemma chomp_disk_is_full: "chomp ''disk is full'' = ''disk is full''"
  by (simp add: chomp_def Trim_def TrimLeft_def TrimRight_def LF_def CR_def)

theorem eventSummary_by_design_witness:
  "eventSummary (withOutput (FixtureEvent ''entity1'' ''check1'') ''disk is full'') 100
     = Inr ''entity1/check1:disk is full''
   \<and> eventSummary (withOutput (FixtureEvent ''entity1'' ''check1'') ''disk is full'') 5
     = Inr ''entity1/check1:disk ...''"
  using
    eventSummary_by_design
      [of "withOutput (FixtureEvent ''entity1'' ''check1'') ''disk is full''" 100]
    eventSummary_by_design
      [of "withOutput (FixtureEvent ''entity1'' ''check1'') ''disk is full''" 5]
  by (simp add: withOutput_def FixtureEvent_def chomp_disk_is_full)

text \<open>
  For an output that does not start with a line ending and a slice in range, the code
  computes the specification's summary.
\<close>

lemma eventSummary_refines_spec:
  assumes "Output (Check ev) = [] \<or> hd (Output (Check ev)) \<notin> {LF, CR}"
    and "int (length (Output (Check ev))) \<le> n
          \<or> (0 \<le> n \<and> n \<le> int (length (chomp (Output (Check ev)))))"
  shows "eventSummary ev n = Inr (summary_spec ev n)"
  using assms(2) chomp_no_leading [OF assms(1)]
  by (auto simp: eventSummary_def summary_spec_def string_slice_def Let_def)

lemma formattedMessage_longOutput:
  "formattedMessage (withOutput (FixtureEvent ''entity1'' ''check1'') longOutput)
     = Inl (SliceBoundsOutOfRange 100 99)"
  by (simp add: formattedMessage_def eventSummary_def withOutput_def FixtureEvent_def
      string_slice_def chomp_longOutput length_longOutput)

text \<open>The result of \<open>TestFormattedMessage\<close>.\<close>

lemma TestFormattedMessage:
  "formattedMessage (withStatus (withOutput (FixtureEvent ''entity1'' ''check1'') ''disk is full'') 1)
     = Inr ''ALERT - entity1/check1:disk is full''"
  by (simp add: formattedMessage_def formattedEventAction_def eventSummary_def eventKey_def
      withStatus_def withOutput_def FixtureEvent_def chomp_disk_is_full)


section \<open>Status label and colour\<close>

text \<open>
  Claim C8: the mapping from the status code to the colour is total: \<open>#36a64f\<close> for 0,
  \<open>#ffcc00\<close> for 1, \<open>#ff0000\<close> for 2 and \<open>#6600cc\<close> for every other value of the
  \<open>uint32\<close> status.
\<close>

theorem messageColor_total:
  "(Status (Check ev) = 0 \<longrightarrow> messageColor ev = ''#36a64f'')
   \<and> (Status (Check ev) = 1 \<longrightarrow> messageColor ev = ''#ffcc00'')
   \<and> (Status (Check ev) = 2 \<longrightarrow> messageColor ev = ''#ff0000'')
   \<and> (Status (Check ev) \<notin> {0, 1, 2} \<longrightarrow> messageColor ev = ''#6600cc'')"
  by (simp add: messageColor_def)

theorem messageColor_total_witness:
  "messageColor (withStatus (FixtureEvent ''entity1'' ''check1'') 0) = ''#36a64f''
   \<and> messageColor (withStatus (FixtureEvent ''entity1'' ''check1'') 1) = ''#ffcc00''
   \<and> messageColor (withStatus (FixtureEvent ''entity1'' ''check1'') 2) = ''#ff0000''
   \<and> messageColor (withStatus (FixtureEvent ''entity1'' ''check1'') 3) = ''#6600cc''
   \<and> messageColor (withStatus (FixtureEvent ''entity1'' ''check1'') 4294967295) = ''#6600cc''"
  using messageColor_total [of "withStatus (FixtureEvent ''entity1'' ''check1'') 0"]
    messageColor_total [of "withStatus (FixtureEvent ''entity1'' ''check1'') 1"]
    messageColor_total [of "withStatus (FixtureEvent ''entity1'' ''check1'') 2"]
    messageColor_total [of "withStatus (FixtureEvent ''entity1'' ''check1'') 3"]
    messageColor_total [of "withStatus (FixtureEvent ''entity1'' ''check1'') 4294967295"]
  by (simp add: withStatus_def)

text \<open>
  Claim C10: \<open>formattedEventAction\<close> and \<open>messageColor\<close> depend on the check status only:
  two events with the same status get the same label and the same colour, whatever their
  other fields are.
\<close>

theorem status_decides_action_and_color:
  "Status (Check ev1) = Status (Check ev2) \<Longrightarrow>
     formattedEventAction ev1 = formattedEventAction ev2 \<and> messageColor ev1 = messageColor ev2"
  by (simp add: formattedEventAction_def messageColor_def)

theorem status_decides_action_and_color_witness:
  "Status (Check (withStatus (FixtureEvent ''entity1'' ''check1'') 2))
     = Status (Check (withStatus (withOutput (FixtureEvent ''web'' ''disk'') ''disk is full'') 2))
   \<and> formattedEventAction (withStatus (FixtureEvent ''entity1'' ''check1'') 2)
     = formattedEventAction
         (withStatus (withOutput (FixtureEvent ''web'' ''disk'') ''disk is full'') 2)
   \<and> messageColor (withStatus (FixtureEvent ''entity1'' ''check1'') 2)
     = messageColor (withStatus (withOutput (FixtureEvent ''web'' ''disk'') ''disk is full'') 2)"
proof -
  have h: "Status (Check (withStatus (FixtureEvent ''entity1'' ''check1'') 2))
     = Status (Check (withStatus (withOutput (FixtureEvent ''web'' ''disk'') ''disk is full'') 2))"
    by (simp add: withStatus_def)
  from status_decides_action_and_color [OF h] h show ?thesis by simp
qed

text \<open>The results of \<open>TestFormattedEventAction\<close>.\<close>

lemma TestFormattedEventAction:
  "formattedEventAction (FixtureEvent ''entity1'' ''check1'') = ''RESOLVED''"
  "formattedEventAction (withStatus (FixtureEvent ''entity1'' ''check1'') 1) = ''ALERT''"
  by (simp_all add: formattedEventAction_def withStatus_def FixtureEvent_def)


section \<open>\<open>messageAttachment\<close>\<close>

text \<open>
  \<open>messageAttachment\<close> returns an attachment exactly when the fallback text can be
  computed, whatever the template evaluation gives.
\<close>

lemma messageAttachment_returns_iff:
  "(\<exists>a. snd (messageAttachment evalTemplate config ev w) = Inr a)
     \<longleftrightarrow> (\<exists>fallback. formattedMessage ev = Inr fallback)"
  by (cases "formattedMessage ev") (auto simp: messageAttachment_def Let_def split: prod.splits)

text \<open>
  A failing template evaluation does not stop the assembly: for an event whose fallback
  text is computed, the error is printed and the attachment carries the fallback, the
  colour and the newline-normalised text that the evaluation returned.
\<close>

lemma messageAttachment_template_failure:
  assumes "evalTemplate ''description'' (slackDescriptionTemplate config) ev
             = (description, Some e)"
    and "formattedMessage ev = Inr fallback"
  shows "\<exists>a. messageAttachment evalTemplate config ev w
           = (w\<lparr>stdout := stdout w @ Plugin_Name config
                   @ '': Error processing template: '' @ Error_msg e\<rparr>,
              Inr a)
         \<and> Fallback a = fallback \<and> Color a = messageColor ev
         \<and> Text a = Replace_backslash_n description"
  using assms by (simp add: messageAttachment_def Attachment_zero_def)

text \<open>
  Claim C4 says that for every event a failing template evaluation leaves
  \<open>messageAttachment\<close> running to an attachment. For an event whose output is 99 bytes and
  two line feeds the failure is printed and the function then panics in the fallback text,
  by the out-of-range slice of \<open>eventSummary\<close>: no attachment is produced.
\<close>

theorem messageAttachment_template_failure_panics:
  "messageAttachment evalFails config0
       (withOutput (FixtureEvent ''entity1'' ''check1'') longOutput) world0
     = (world0\<lparr>stdout :=
           ''sensu-slack-handler: Error processing template: Error building template''\<rparr>,
        Inl (SliceBoundsOutOfRange 100 99))"
  by (simp add: messageAttachment_def formattedMessage_longOutput evalFails_def config0_def
      world0_def)

text \<open>
  An attachment that is returned has one action, the button to the event's page in the
  Sensu UI, markdown in the text field only, and no title, fields or footer.
\<close>

lemma messageAttachment_shape:
  assumes "messageAttachment evalTemplate config ev w = (w1, Inr a)"
  shows "Actions a =
           [\<lparr>Action_Name = [], Action_Text = ''View in Sensu'', Action_Type = ''button'',
             Action_URL = sensuUIURL config @ ''/n/'' @ Namespace (Entity ev) @ ''/events/''
                @ Name (Entity ev) @ ''/'' @ Name (Check ev)\<rparr>]
         \<and> MarkdownIn a = [''text''] \<and> Title a = [] \<and> Fields a = [] \<and> Footer a = []"
  using assms
  by (auto simp: messageAttachment_def Let_def Attachment_zero_def AttachmentAction_zero_def
      eventURL_def split: prod.splits sum.splits)

text \<open>
  Claim C6 says that \<open>messageAttachment\<close> returns, for every event, an attachment with
  exactly one action. For the event whose output is 99 bytes and two line feeds, with a
  template evaluation that succeeds, it returns no attachment: it panics in the fallback
  text, by the out-of-range slice of \<open>eventSummary\<close>.
\<close>

theorem messageAttachment_panics_no_attachment:
  "snd (messageAttachment evalOutput (config0\<lparr>sensuUIURL := ''http://example.com/ui''\<rparr>)
          (withOutput (FixtureEvent ''entity1'' ''check1'') longOutput) world0)
     = Inl (SliceBoundsOutOfRange 100 99)"
  by (simp add: messageAttachment_def formattedMessage_longOutput evalOutput_def
      split: prod.splits)

text \<open>
  The attachment of \<open>TestSendMessage\<close>: the fixture event, an empty UI base URL and a
  template evaluation that succeeds.
\<close>

lemma TestSendMessage_attachment:
  "snd (messageAttachment evalOutput config0 (FixtureEvent ''entity1'' ''check1'') world0)
     = Inr \<lparr>Color = ''#36a64f'', Fallback = ''RESOLVED - entity1/check1:'', Title = [],
            Text = [], Fields = [],
            Actions = [\<lparr>Action_Name = [], Action_Text = ''View in Sensu'',
                        Action_Type = ''button'',
                        Action_URL = ''/n/default/events/entity1/check1''\<rparr>],
            MarkdownIn = [''text''], Footer = []\<rparr>"
  by (simp add: messageAttachment_def formattedMessage_def eventSummary_def eventKey_def
      formattedEventAction_def messageColor_def eventURL_def evalOutput_def config0_def
      FixtureEvent_def Attachment_zero_def AttachmentAction_zero_def chomp_def Trim_def
      TrimLeft_def TrimRight_def)


section \<open>\<open>checkArgs\<close>\<close>

text \<open>
  What \<open>checkArgs\<close> leaves in the two required fields, and what it returns: the webhook
  URL is the deprecated variable's value when that is set, the UI URL is untouched, and the
  result depends on these two fields only.
\<close>

lemma checkArgs_facts:
  shows checkArgs_webhook:
    "slackwebHookURL (fst (checkArgs env config))
       = (if Getenv env ''SENSU_SLACK_WEBHOOK_URL'' \<noteq> []
          then Getenv env ''SENSU_SLACK_WEBHOOK_URL'' else slackwebHookURL config)"
  and checkArgs_sensuUIURL:
    "sensuUIURL (fst (checkArgs env config)) = sensuUIURL config"
  and checkArgs_result:
    "snd (checkArgs env config)
       = (if slackwebHookURL (fst (checkArgs env config)) = []
          then Some (Errorf
                 ''--webhook-url or SLACK_WEBHOOK_URL environment variable is required'')
          else if sensuUIURL (fst (checkArgs env config)) = []
          then Some (Errorf ''--ui-url or SENSU_UI_URL environment variable is required'')
          else None)"
proof -
  define c1 where "c1 = (if Getenv env ''SENSU_SLACK_WEBHOOK_URL'' \<noteq> []
      then config\<lparr>slackwebHookURL := Getenv env ''SENSU_SLACK_WEBHOOK_URL''\<rparr>
      else config)"
  define c2 where "c2 =
     (if Getenv env ''SENSU_SLACK_CHANNEL'' \<noteq> [] \<and> slackChannel c1 = defaultChannel
      then c1\<lparr>slackChannel := Getenv env ''SENSU_SLACK_CHANNEL''\<rparr> else c1)"
  define c3 where "c3 =
     (if Getenv env ''SENSU_SLACK_USERNAME'' \<noteq> [] \<and> slackUsername c2 = defaultUsername
      then c2\<lparr>slackUsername := Getenv env ''SENSU_SLACK_USERNAME''\<rparr> else c2)"
  define c4 where "c4 =
     (if Getenv env ''SENSU_SLACK_ICON_URL'' \<noteq> [] \<and> slackIconURL c3 = defaultIconURL
      then c3\<lparr>slackIconURL := Getenv env ''SENSU_SLACK_ICON_URL''\<rparr> else c3)"
  have unf: "checkArgs env config =
           (if length (slackwebHookURL c4) = 0
            then (c4, Some (Errorf (''--'' @ webHookURL
                     @ '' or SLACK_WEBHOOK_URL environment variable is required'')))
            else if length (sensuUIURL c4) = 0
            then (c4, Some (Errorf (''--'' @ uiURL
                     @ '' or SENSU_UI_URL environment variable is required'')))
            else (c4, None))"
    unfolding checkArgs_def Let_def c1_def c2_def c3_def c4_def by (rule refl)
  have f: "fst (checkArgs env config) = c4"
    unfolding unf by simp
  have w4: "slackwebHookURL c4 = slackwebHookURL c3" by (simp add: c4_def)
  have w3: "slackwebHookURL c3 = slackwebHookURL c2" by (simp add: c3_def)
  have w2: "slackwebHookURL c2 = slackwebHookURL c1" by (simp add: c2_def)
  have w1: "slackwebHookURL c1 = (if Getenv env ''SENSU_SLACK_WEBHOOK_URL'' \<noteq> []
          then Getenv env ''SENSU_SLACK_WEBHOOK_URL'' else slackwebHookURL config)"
    by (simp add: c1_def)
  show "slackwebHookURL (fst (checkArgs env config))
       = (if Getenv env ''SENSU_SLACK_WEBHOOK_URL'' \<noteq> []
          then Getenv env ''SENSU_SLACK_WEBHOOK_URL'' else slackwebHookURL config)"
    by (simp only: f w4 w3 w2 w1)
  have u4: "sensuUIURL c4 = sensuUIURL c3" by (simp add: c4_def)
  have u3: "sensuUIURL c3 = sensuUIURL c2" by (simp add: c3_def)
  have u2: "sensuUIURL c2 = sensuUIURL c1" by (simp add: c2_def)
  have u1: "sensuUIURL c1 = sensuUIURL config" by (simp add: c1_def)
  show "sensuUIURL (fst (checkArgs env config)) = sensuUIURL config"
    by (simp only: f u4 u3 u2 u1)
  show "snd (checkArgs env config)
       = (if slackwebHookURL (fst (checkArgs env config)) = []
          then Some (Errorf
                 ''--webhook-url or SLACK_WEBHOOK_URL environment variable is required'')
          else if sensuUIURL (fst (checkArgs env config)) = []
          then Some (Errorf ''--ui-url or SENSU_UI_URL environment variable is required'')
          else None)"
    unfolding f unfolding unf by (simp add: webHookURL_def uiURL_def)
qed

text \<open>
  The three other fields take the deprecated variable only while they hold the compiled-in
  default, as the channel shows.
\<close>

lemma checkArgs_channel_fallback_only:
  "slackChannel (fst (checkArgs [''SENSU_SLACK_CHANNEL'' \<mapsto> ''#deprecated'']
       (config0\<lparr>slackChannel := ''#ops''\<rparr>))) = ''#ops''"
  "slackChannel (fst (checkArgs [''SENSU_SLACK_CHANNEL'' \<mapsto> ''#deprecated'']
       (config0\<lparr>slackChannel := defaultChannel\<rparr>))) = ''#deprecated''"
  by (simp_all add: checkArgs_def Getenv_def config0_def Let_def defaultChannel_def
      defaultUsername_def defaultIconURL_def)

text \<open>
  Claim C3 says that the deprecated \<open>SENSU_SLACK_WEBHOOK_URL\<close> is a fallback only, so that
  a webhook URL that is already set is left unchanged. The code assigns the deprecated
  value whenever it is not empty: with the webhook URL set to
  \<open>http://example.com/webhook\<close> and the deprecated variable to
  \<open>http://example.com/deprecated\<close>, \<open>checkArgs\<close> leaves the deprecated value in the
  configuration.
\<close>

theorem checkArgs_deprecated_overrides:
  "slackwebHookURL (fst (checkArgs
       [''SENSU_SLACK_WEBHOOK_URL'' \<mapsto> ''http://example.com/deprecated'']
       (config0\<lparr>slackwebHookURL := ''http://example.com/webhook'',
                sensuUIURL := ''http://example.com/ui''\<rparr>)))
     = ''http://example.com/deprecated''"
  by (simp add: checkArgs_def Getenv_def config0_def Let_def)

lemma goHandler_Execute_invalid:
  "snd (checkArgs env config) = Some e \<Longrightarrow>
     goHandler_Execute env evalTemplate postWebhook config ev w = (w, Inr (Some e))"
  by (cases "checkArgs env config") (simp add: goHandler_Execute_def)

text \<open>
  Claim C7: \<open>checkArgs\<close> succeeds exactly when the webhook URL and the UI base URL are both
  non-empty after the overlay of the deprecated variables (the webhook URL is then the
  deprecated variable's value if that is set, the UI URL is as configured). When the
  webhook URL is empty the error names \<open>--webhook-url\<close>, when only the UI URL is empty it
  names \<open>--ui-url\<close>; and when \<open>checkArgs\<close> returns an error, the handler ends with that
  error and the world unchanged: nothing is printed and nothing is posted.
\<close>

theorem checkArgs_validates:
  "(snd (checkArgs env config) = None \<longleftrightarrow>
      slackwebHookURL (fst (checkArgs env config)) \<noteq> []
      \<and> sensuUIURL (fst (checkArgs env config)) \<noteq> [])
   \<and> slackwebHookURL (fst (checkArgs env config))
       = (if Getenv env ''SENSU_SLACK_WEBHOOK_URL'' \<noteq> []
          then Getenv env ''SENSU_SLACK_WEBHOOK_URL'' else slackwebHookURL config)
   \<and> sensuUIURL (fst (checkArgs env config)) = sensuUIURL config
   \<and> (slackwebHookURL (fst (checkArgs env config)) = [] \<longrightarrow>
        snd (checkArgs env config)
          = Some (Errorf
              ''--webhook-url or SLACK_WEBHOOK_URL environment variable is required''))
   \<and> (slackwebHookURL (fst (checkArgs env config)) \<noteq> []
        \<and> sensuUIURL (fst (checkArgs env config)) = [] \<longrightarrow>
        snd (checkArgs env config)
          = Some (Errorf ''--ui-url or SENSU_UI_URL environment variable is required''))
   \<and> (\<forall>e. snd (checkArgs env config) = Some e \<longrightarrow>
        goHandler_Execute env evalTemplate postWebhook config ev w = (w, Inr (Some e)))"
  using checkArgs_result [of env config] checkArgs_webhook [of env config]
    checkArgs_sensuUIURL [of env config]
    goHandler_Execute_invalid [of env config _ evalTemplate postWebhook ev w]
  by (auto split: if_splits)

theorem checkArgs_validates_witness:
  "snd (checkArgs Map.empty (config0\<lparr>sensuUIURL := ''http://example.com/ui''\<rparr>))
      = Some (Errorf ''--webhook-url or SLACK_WEBHOOK_URL environment variable is required'')
   \<and> snd (checkArgs Map.empty (config0\<lparr>slackwebHookURL := ''http://example.com/webhook''\<rparr>))
      = Some (Errorf ''--ui-url or SENSU_UI_URL environment variable is required'')
   \<and> snd (checkArgs Map.empty
            (config0\<lparr>slackwebHookURL := ''http://example.com/webhook'',
                     sensuUIURL := ''http://example.com/ui''\<rparr>)) = None
   \<and> goHandler_Execute Map.empty evalOutput postOK
        (config0\<lparr>sensuUIURL := ''http://example.com/ui''\<rparr>)
        (FixtureEvent ''entity1'' ''check1'') world0
      = (world0, Inr (Some (Errorf
           ''--webhook-url or SLACK_WEBHOOK_URL environment variable is required'')))"
  using
    checkArgs_validates
      [of Map.empty "config0\<lparr>sensuUIURL := ''http://example.com/ui''\<rparr>"
        evalOutput postOK "FixtureEvent ''entity1'' ''check1''" world0]
    checkArgs_validates
      [of Map.empty "config0\<lparr>slackwebHookURL := ''http://example.com/webhook''\<rparr>"
        evalOutput postOK "FixtureEvent ''entity1'' ''check1''" world0]
    checkArgs_validates
      [of Map.empty "config0\<lparr>slackwebHookURL := ''http://example.com/webhook'',
                             sensuUIURL := ''http://example.com/ui''\<rparr>"
        evalOutput postOK "FixtureEvent ''entity1'' ''check1''" world0]
  by (simp add: Getenv_def config0_def)

text \<open>
  With a valid configuration the handler goes on to the core, which runs on the
  configuration that \<open>checkArgs\<close> left behind.
\<close>

lemma goHandler_Execute_valid:
  "snd (checkArgs env config) = None \<Longrightarrow>
     goHandler_Execute env evalTemplate postWebhook config ev w
       = sendMessage evalTemplate postWebhook (fst (checkArgs env config)) ev w"
  by (cases "checkArgs env config") (simp add: goHandler_Execute_def)

end
